theory Spec2Isabelle
  imports Main
begin

section \<open>The DeploymentSuccess component\<close>

text \<open>
  A shallow embedding of \<^verbatim>\<open>src/components/DeploymentSuccess.tsx\<close>: the props and the local
  state of the component as records, its handlers as computations over an explicit
  configuration (local state, clock, pending timers, the log of calls into the browser and
  the services), and the metadata panel of its render function as a function of the state.
  JavaScript strings are lists of characters, a value that may be \<^verbatim>\<open>undefined\<close> or
  \<^verbatim>\<open>null\<close> is an \<open>option\<close>, and a promise is represented by the way it settles.
\<close>

subsection \<open>Props and local state\<close>

record Network =
  network_name :: string
  network_symbol :: string

text \<open>
  Modelled from the spec: the declaration of \<^verbatim>\<open>DeploymentResult\<close> (\<^verbatim>\<open>../types\<close>) is not
  part of the sources. The fields are the ones the component reads; \<^verbatim>\<open>symbol\<close> and
  \<^verbatim>\<open>decimals\<close> may be unspecified (\<open>None\<close>), the number is an integer.
\<close>

record DeploymentResult =
  contractAddress :: string
  transactionHash :: string
  explorerUrl :: string
  network :: Network
  gasUsed :: string
  deploymentCost :: string
  tokenName :: string
  tokenSymbol :: string
  symbol :: "string option"
  decimals :: "int option"

text \<open>
  Modelled from the spec: the declaration of \<^verbatim>\<open>TokenMetadata\<close>
  (\<^verbatim>\<open>../types/tokenMetadata\<close>) is not part of the sources. The fields are the ones the
  read view renders.
\<close>

record TokenMetadata =
  metadata_name :: "string option"
  metadata_symbol :: "string option"
  logoUrl :: "string option"
  description :: "string option"
  tags :: "string list option"
  websiteUrl :: "string option"
  twitterUrl :: "string option"
  telegramUrl :: "string option"

text \<open>The four \<^verbatim>\<open>React.useState\<close> cells (lines 14 to 17).\<close>

record State =
  copied :: "string option"
  showMetadataForm :: bool
  tokenMetadata :: "TokenMetadata option"
  isLoadingMetadata :: bool

definition initialState :: State where
  "initialState =
     \<lparr>copied = None, showMetadataForm = False, tokenMetadata = None,
      isLoadingMetadata = False\<rparr>"

subsection \<open>The environment and what the component does to it\<close>

datatype js_error = JsError string

datatype 'a promise = Resolved 'a | Rejected js_error

record ShareData =
  share_title :: string
  share_text :: string
  share_url :: string

record WatchAssetOptions =
  asset_address :: string
  asset_symbol :: string
  asset_decimals :: int
  asset_image :: string

record ProviderRequest =
  request_method :: string
  params_type :: string
  params_options :: WatchAssetOptions

text \<open>
  The injected capabilities: \<^verbatim>\<open>navigator.share\<close> and \<^verbatim>\<open>window.ethereum\<close> may be absent,
  \<^verbatim>\<open>metadataService.getTokenMetadata\<close> is always there. Each is given by the way the
  promise it returns settles.
\<close>

record Env =
  navigator_share :: "(ShareData \<Rightarrow> unit promise) option"
  ethereum :: "(ProviderRequest \<Rightarrow> bool promise) option"
  getTokenMetadata :: "string \<Rightarrow> TokenMetadata option promise"

datatype effect =
    ClipboardWriteText string
  | NavigatorShare ShareData
  | Alert string
  | ConsoleError string js_error
  | EthereumRequest ProviderRequest
  | GetTokenMetadata string

text \<open>
  A configuration: the local state, the clock in milliseconds, the due times of the
  pending \<^verbatim>\<open>setTimeout\<close> callbacks (the component registers one callback only,
  \<^verbatim>\<open>() => setCopied(null)\<close>), the calls made so far, and the state after each setter call.
\<close>

record config =
  ui :: State
  now :: nat
  timers :: "nat list"
  trace :: "effect list"
  updates :: "State list"

definition initial_config :: config where
  "initial_config = \<lparr>ui = initialState, now = 0, timers = [], trace = [], updates = []\<rparr>"

subsection \<open>Computations with exceptions\<close>

datatype 'a completion = Normal 'a | Throw js_error

type_synonym 'a comp = "config \<Rightarrow> 'a completion \<times> config"

definition ret :: "'a \<Rightarrow> 'a comp" where
  "ret x = (\<lambda>c. (Normal x, c))"

definition throw :: "js_error \<Rightarrow> 'a comp" where
  "throw e = (\<lambda>c. (Throw e, c))"

definition bind :: "'a comp \<Rightarrow> ('a \<Rightarrow> 'b comp) \<Rightarrow> 'b comp" where
  "bind m f = (\<lambda>c. case m c of (Normal x, c') \<Rightarrow> f x c' | (Throw e, c') \<Rightarrow> (Throw e, c'))"

definition seq :: "'a comp \<Rightarrow> 'b comp \<Rightarrow> 'b comp" where
  "seq m n = bind m (\<lambda>_. n)"

definition try_catch :: "'a comp \<Rightarrow> (js_error \<Rightarrow> 'a comp) \<Rightarrow> 'a comp" where
  "try_catch m h = (\<lambda>c. case m c of (Normal x, c') \<Rightarrow> (Normal x, c') | (Throw e, c') \<Rightarrow> h e c')"

definition try_catch_finally :: "'a comp \<Rightarrow> (js_error \<Rightarrow> 'a comp) \<Rightarrow> unit comp \<Rightarrow> 'a comp" where
  "try_catch_finally m h f =
     (\<lambda>c. case try_catch m h c of
             (r, c') \<Rightarrow> (case f c' of (Normal _, c'') \<Rightarrow> (r, c'') | (Throw e, c'') \<Rightarrow> (Throw e, c'')))"

definition await :: "'a promise \<Rightarrow> 'a comp" where
  "await p = (case p of Resolved v \<Rightarrow> ret v | Rejected e \<Rightarrow> throw e)"

definition perform :: "effect \<Rightarrow> unit comp" where
  "perform e = (\<lambda>c. (Normal (), c\<lparr>trace := trace c @ [e]\<rparr>))"

definition setState :: "(State \<Rightarrow> State) \<Rightarrow> unit comp" where
  "setState f = (\<lambda>c. let s = f (ui c) in (Normal (), c\<lparr>ui := s, updates := updates c @ [s]\<rparr>))"

definition setCopied :: "string option \<Rightarrow> unit comp" where
  "setCopied v = setState (\<lambda>s. s\<lparr>copied := v\<rparr>)"

definition setShowMetadataForm :: "bool \<Rightarrow> unit comp" where
  "setShowMetadataForm v = setState (\<lambda>s. s\<lparr>showMetadataForm := v\<rparr>)"

definition setTokenMetadata :: "TokenMetadata option \<Rightarrow> unit comp" where
  "setTokenMetadata v = setState (\<lambda>s. s\<lparr>tokenMetadata := v\<rparr>)"

definition setIsLoadingMetadata :: "bool \<Rightarrow> unit comp" where
  "setIsLoadingMetadata v = setState (\<lambda>s. s\<lparr>isLoadingMetadata := v\<rparr>)"

text \<open>\<^verbatim>\<open>setTimeout(() => setCopied(null), d)\<close>: one more pending callback, due \<open>d\<close> ms from now.\<close>

definition setTimeout :: "nat \<Rightarrow> unit comp" where
  "setTimeout d = (\<lambda>c. (Normal (), c\<lparr>timers := timers c @ [now c + d]\<rparr>))"

subsection \<open>JavaScript operators the component uses\<close>

text \<open>
  \<^verbatim>\<open>a || b\<close>: \<open>b\<close> when \<open>a\<close> is falsy. A string is falsy when it is undefined or empty, a
  number when it is undefined or zero.
\<close>

definition or_string :: "string option \<Rightarrow> string \<Rightarrow> string" where
  "or_string a b = (case a of None \<Rightarrow> b | Some s \<Rightarrow> if s = [] then b else s)"

definition or_number :: "int option \<Rightarrow> int \<Rightarrow> int" where
  "or_number a b = (case a of None \<Rightarrow> b | Some n \<Rightarrow> if n = 0 then b else n)"

text \<open>
  \<^verbatim>\<open>String.prototype.slice(start, end)\<close>: a negative index counts from the end, and both
  are clamped to the string.
\<close>

definition slice :: "int \<Rightarrow> int \<Rightarrow> string \<Rightarrow> string" where
  "slice start stop s =
     (let len = int (length s);
          lo = (if start < 0 then max (len + start) 0 else min start len);
          hi = (if stop < 0 then max (len + stop) 0 else min stop len)
      in take (nat (max (hi - lo) 0)) (drop (nat lo) s))"

subsection \<open>The handlers\<close>

text \<open>The effect of lines 20 to 40, run on mount and when the contract address changes.\<close>

definition checkMetadata :: "Env \<Rightarrow> DeploymentResult \<Rightarrow> unit comp" where
  "checkMetadata env result =
     (if contractAddress result \<noteq> [] then
        seq (setIsLoadingMetadata True)
          (try_catch_finally
             (bind (seq (perform (GetTokenMetadata (contractAddress result)))
                        (await (getTokenMetadata env (contractAddress result))))
                (\<lambda>metadata.
                   seq (setTokenMetadata metadata)
                     (if metadata \<noteq> None then setShowMetadataForm False else ret ())))
             (\<lambda>error. perform (ConsoleError ''Error fetching token metadata:'' error))
             (setIsLoadingMetadata False))
      else ret ())"

definition copyToClipboard :: "string \<Rightarrow> string \<Rightarrow> unit comp" where
  "copyToClipboard txt type =
     seq (perform (ClipboardWriteText txt))
       (seq (setCopied (Some type)) (setTimeout 2000))"

definition shareData :: "DeploymentResult \<Rightarrow> ShareData" where
  "shareData result =
     \<lparr>share_title = ''Token Contract Deployed'',
      share_text = ''Check out my new token contract: '' @ contractAddress result,
      share_url = explorerUrl result\<rparr>"

definition shareContract :: "Env \<Rightarrow> DeploymentResult \<Rightarrow> unit comp" where
  "shareContract env result =
     (case navigator_share env of
        Some share \<Rightarrow>
          try_catch
            (seq (perform (NavigatorShare (shareData result))) (await (share (shareData result))))
            (\<lambda>err. seq (perform (ConsoleError ''Error sharing:'' err))
                      (copyToClipboard (explorerUrl result) ''share''))
      | None \<Rightarrow> copyToClipboard (explorerUrl result) ''share'')"

definition handleMetadataSave :: "TokenMetadata \<Rightarrow> unit comp" where
  "handleMetadataSave metadata =
     seq (setTokenMetadata (Some metadata)) (setShowMetadataForm False)"

definition watchAssetRequest :: "DeploymentResult \<Rightarrow> ProviderRequest" where
  "watchAssetRequest result =
     \<lparr>request_method = ''wallet_watchAsset'',
      params_type = ''ERC20'',
      params_options =
        \<lparr>asset_address = contractAddress result,
         asset_symbol = or_string (symbol result) ''TOKEN'',
         asset_decimals = or_number (decimals result) 18,
         asset_image = []\<rparr>\<rparr>"

definition addTokenToMetaMask :: "Env \<Rightarrow> DeploymentResult \<Rightarrow> unit comp" where
  "addTokenToMetaMask env result =
     (case ethereum env of
        None \<Rightarrow> seq (perform (Alert ''MetaMask is not installed'')) (ret ())
      | Some request \<Rightarrow>
          try_catch
            (seq (perform (EthereumRequest (watchAssetRequest result)))
               (bind (await (request (watchAssetRequest result))) (\<lambda>_. ret ())))
            (\<lambda>error. perform (ConsoleError ''Error adding token to MetaMask:'' error)))"

subsection \<open>What is rendered\<close>

text \<open>Lines 149 to 151: the transaction hash as displayed.\<close>

definition displayedTransactionHash :: "DeploymentResult \<Rightarrow> string" where
  "displayedTransactionHash result = slice 0 20 (transactionHash result) @ ''...''"

text \<open>Lines 143 and 159: the ``Copied!'' line under the field with the given key.\<close>

definition copiedIndicator :: "string \<Rightarrow> State \<Rightarrow> bool" where
  "copiedIndicator key s = (copied s = Some key)"

text \<open>Lines 201 to 302: the body of the metadata panel.\<close>

datatype MetadataPanel =
    Spinner
  | MetadataForm "TokenMetadata option"
  | MetadataView TokenMetadata
  | AddMetadataPrompt

definition metadataPanel :: "State \<Rightarrow> MetadataPanel" where
  "metadataPanel s =
     (if isLoadingMetadata s then Spinner
      else if showMetadataForm s then MetadataForm (tokenMetadata s)
      else case tokenMetadata s of
             Some metadata \<Rightarrow> MetadataView metadata
           | None \<Rightarrow> AddMetadataPrompt)"

subsection \<open>User actions and the passing of time\<close>

text \<open>
  The controls of the component that act on its state. The header toggle (line 193) is
  rendered only when not loading, the ``Add Token Metadata'' button (line 296) only in the
  prompt, and the form calls \<^verbatim>\<open>onSave\<close> only while it is rendered; a control that is
  not rendered does nothing.
\<close>

datatype action =
    CopyAddress
  | CopyTx
  | ShareContract
  | AddToMetaMask
  | ToggleForm
  | AddTokenMetadata
  | Save TokenMetadata
  | Elapse nat

definition fire_timer :: "config \<Rightarrow> config" where
  "fire_timer c = snd (setCopied None c)"

text \<open>Time passes by \<open>d\<close> ms: every callback that has become due runs and is removed.\<close>

definition elapse :: "nat \<Rightarrow> config \<Rightarrow> config" where
  "elapse d c =
     (let t = now c + d;
          c' = fold (\<lambda>_. fire_timer) (filter (\<lambda>due. due \<le> t) (timers c)) c
      in c'\<lparr>now := t, timers := filter (\<lambda>due. t < due) (timers c)\<rparr>)"

fun dispatch :: "Env \<Rightarrow> DeploymentResult \<Rightarrow> action \<Rightarrow> config \<Rightarrow> config" where
  "dispatch env result CopyAddress c =
     snd (copyToClipboard (contractAddress result) ''address'' c)"
| "dispatch env result CopyTx c =
     snd (copyToClipboard (transactionHash result) ''tx'' c)"
| "dispatch env result ShareContract c = snd (shareContract env result c)"
| "dispatch env result AddToMetaMask c = snd (addTokenToMetaMask env result c)"
| "dispatch env result ToggleForm c =
     (if isLoadingMetadata (ui c) then c
      else snd (setShowMetadataForm (\<not> showMetadataForm (ui c)) c))"
| "dispatch env result AddTokenMetadata c =
     (case metadataPanel (ui c) of
        AddMetadataPrompt \<Rightarrow> snd (setShowMetadataForm True c)
      | _ \<Rightarrow> c)"
| "dispatch env result (Save metadata) c =
     (case metadataPanel (ui c) of
        MetadataForm _ \<Rightarrow> snd (handleMetadataSave metadata c)
      | _ \<Rightarrow> c)"
| "dispatch env result (Elapse d) c = elapse d c"

definition run_actions :: "Env \<Rightarrow> DeploymentResult \<Rightarrow> action list \<Rightarrow> config \<Rightarrow> config" where
  "run_actions env result as c = fold (dispatch env result) as c"

fun duration :: "action list \<Rightarrow> nat" where
  "duration [] = 0"
| "duration (Elapse d # as) = d + duration as"
| "duration (_ # as) = duration as"

subsection \<open>Reading the log and the state\<close>

fun clipboard_writes :: "effect list \<Rightarrow> string list" where
  "clipboard_writes [] = []"
| "clipboard_writes (ClipboardWriteText txt # es) = txt # clipboard_writes es"
| "clipboard_writes (_ # es) = clipboard_writes es"

fun provider_requests :: "effect list \<Rightarrow> ProviderRequest list" where
  "provider_requests [] = []"
| "provider_requests (EthereumRequest req # es) = req # provider_requests es"
| "provider_requests (_ # es) = provider_requests es"

text \<open>The state in which the panel shows the prompt: not loading, no form, no metadata.\<close>

definition prompt_state :: "State \<Rightarrow> bool" where
  "prompt_state s = (\<not> isLoadingMetadata s \<and> \<not> showMetadataForm s \<and> tokenMetadata s = None)"

subsection \<open>Concrete inputs\<close>

definition example_metadata :: TokenMetadata where
  "example_metadata =
     \<lparr>metadata_name = Some ''Ticket'', metadata_symbol = Some ''TIX'', logoUrl = None,
      description = Some ''Concert tickets'', tags = Some [''event''], websiteUrl = None,
      twitterUrl = None, telegramUrl = None\<rparr>"

text \<open>A deployed token with indivisible units: its \<^verbatim>\<open>decimals\<close> value is 0.\<close>

definition example_result :: DeploymentResult where
  "example_result =
     \<lparr>contractAddress = ''0x5FbDB231'',
      transactionHash = ''0x9f86d081884c7d659a2feaa0'',
      explorerUrl = ''https://etherscan.io/address/0x5FbDB231'',
      network = \<lparr>network_name = ''Ethereum'', network_symbol = ''ETH''\<rparr>,
      gasUsed = ''1250000'',
      deploymentCost = ''0.025'',
      tokenName = ''Ticket'',
      tokenSymbol = ''TIX'',
      symbol = Some ''TIX'',
      decimals = Some 0\<rparr>"

text \<open>A browser with no share sheet and no wallet; the service knows no metadata.\<close>

definition bare_env :: Env where
  "bare_env =
     \<lparr>navigator_share = None, ethereum = None, getTokenMetadata = (\<lambda>_. Resolved None)\<rparr>"

text \<open>
  A browser with a wallet that accepts the request and a share sheet the user dismisses;
  the service returns a record.
\<close>

definition wallet_env :: Env where
  "wallet_env =
     \<lparr>navigator_share = Some (\<lambda>_. Rejected (JsError ''AbortError'')),
      ethereum = Some (\<lambda>_. Resolved True),
      getTokenMetadata = (\<lambda>_. Resolved (Some example_metadata))\<rparr>"

text \<open>The metadata service is unreachable.\<close>

definition offline_env :: Env where
  "offline_env =
     \<lparr>navigator_share = None, ethereum = None,
      getTokenMetadata = (\<lambda>_. Rejected (JsError ''Network Error''))\<rparr>"

section \<open>Properties\<close>

lemmas comp_defs = ret_def throw_def bind_def seq_def try_catch_def try_catch_finally_def
  await_def perform_def setState_def setCopied_def setShowMetadataForm_def
  setTokenMetadata_def setIsLoadingMetadata_def setTimeout_def Let_def

lemmas example_defs = example_result_def example_metadata_def bare_env_def wallet_env_def
  offline_env_def initial_config_def initialState_def

lemma clipboard_writes_append:
  "clipboard_writes (es @ fs) = clipboard_writes es @ clipboard_writes fs"
  by (induction es rule: clipboard_writes.induct) simp_all

lemma provider_requests_append:
  "provider_requests (es @ fs) = provider_requests es @ provider_requests fs"
  by (induction es rule: provider_requests.induct) simp_all

lemma copyToClipboard_config:
  "copyToClipboard txt key c =
     (Normal (), c\<lparr>trace := trace c @ [ClipboardWriteText txt],
                   ui := (ui c)\<lparr>copied := Some key\<rparr>,
                   updates := updates c @ [(ui c)\<lparr>copied := Some key\<rparr>],
                   timers := timers c @ [now c + 2000]\<rparr>)"
  by (simp add: copyToClipboard_def comp_defs)

subsection \<open>The displayed transaction hash\<close>

text \<open>
  C3. When the transaction hash of the result is longer than 20 characters, the hash as
  rendered is its first 20 characters followed by three dots, 23 characters in all.
\<close>

theorem displayedTransactionHash_truncates:
  assumes "20 < length (transactionHash result)"
  shows "displayedTransactionHash result = take 20 (transactionHash result) @ ''...'' \<and>
         length (displayedTransactionHash result) = 23"
  using assms by (simp add: displayedTransactionHash_def slice_def Let_def)

theorem displayedTransactionHash_truncates_witness:
  "20 < length (transactionHash example_result) \<and>
   displayedTransactionHash example_result = ''0x9f86d081884c7d659a...''"
  using displayedTransactionHash_truncates [of example_result]
  by (simp add: example_result_def)

subsection \<open>Wallet asset registration\<close>

text \<open>
  With a provider present the handler issues exactly one request, the
  \<^verbatim>\<open>wallet_watchAsset\<close> request built from the result, and completes normally also when
  the provider rejects it.
\<close>

lemma addTokenToMetaMask_request:
  assumes "ethereum env = Some request"
  shows "fst (addTokenToMetaMask env result c) = Normal () \<and>
         ui (snd (addTokenToMetaMask env result c)) = ui c \<and>
         provider_requests (trace (snd (addTokenToMetaMask env result c))) =
           provider_requests (trace c) @ [watchAssetRequest result]"
  using assms
  by (simp add: addTokenToMetaMask_def comp_defs provider_requests_append split: promise.splits)

lemma watchAssetRequest_defaults:
  "request_method (watchAssetRequest result) = ''wallet_watchAsset'' \<and>
   asset_address (params_options (watchAssetRequest result)) = contractAddress result \<and>
   asset_symbol (params_options (watchAssetRequest result)) =
     (if symbol result = None \<or> symbol result = Some [] then ''TOKEN'' else the (symbol result)) \<and>
   asset_decimals (params_options (watchAssetRequest result)) =
     (if decimals result = None \<or> decimals result = Some 0 then 18 else the (decimals result))"
  by (simp add: watchAssetRequest_def or_string_def or_number_def split: option.splits)

text \<open>
  C1. A result whose \<^verbatim>\<open>decimals\<close> value is specified as 0 is not passed through: with a
  provider present, the one request issued carries 18 decimals.
\<close>

theorem addTokenToMetaMask_zero_decimals_sent_as_18:
  "decimals example_result = Some 0 \<and>
   trace (snd (addTokenToMetaMask wallet_env example_result initial_config)) =
     [EthereumRequest
        \<lparr>request_method = ''wallet_watchAsset'',
         params_type = ''ERC20'',
         params_options =
           \<lparr>asset_address = ''0x5FbDB231'', asset_symbol = ''TIX'', asset_decimals = 18,
            asset_image = []\<rparr>\<rparr>]"
  by (simp add: addTokenToMetaMask_def watchAssetRequest_def or_string_def or_number_def
      comp_defs example_defs)

text \<open>
  C4. When no wallet provider is injected, the handler shows the alert and does nothing
  else: no provider request is issued and the local state is unchanged.
\<close>

theorem addTokenToMetaMask_no_provider:
  assumes "ethereum env = None"
  shows "addTokenToMetaMask env result c =
           (Normal (), c\<lparr>trace := trace c @ [Alert ''MetaMask is not installed'']\<rparr>) \<and>
         provider_requests (trace (snd (addTokenToMetaMask env result c))) =
           provider_requests (trace c) \<and>
         ui (snd (addTokenToMetaMask env result c)) = ui c"
  using assms by (simp add: addTokenToMetaMask_def comp_defs provider_requests_append)

theorem addTokenToMetaMask_no_provider_witness:
  "ethereum bare_env = None \<and>
   trace (snd (addTokenToMetaMask bare_env example_result initial_config)) =
     [Alert ''MetaMask is not installed''] \<and>
   ui (snd (addTokenToMetaMask bare_env example_result initial_config)) = initialState"
  using addTokenToMetaMask_no_provider [of bare_env example_result initial_config]
  by (simp add: bare_env_def initial_config_def)

subsection \<open>Sharing\<close>

text \<open>
  C5. When the native share capability is unavailable, and likewise when the native share
  attempt fails, the handler writes the explorer URL of the result to the clipboard (its
  only clipboard write), sets the \<^verbatim>\<open>share\<close> confirmation flag, and completes normally.
\<close>

theorem shareContract_fallback:
  assumes "navigator_share env = None \<or>
           (\<exists>share e. navigator_share env = Some share \<and> share (shareData result) = Rejected e)"
  shows "fst (shareContract env result c) = Normal () \<and>
         clipboard_writes (trace (snd (shareContract env result c))) =
           clipboard_writes (trace c) @ [explorerUrl result] \<and>
         copiedIndicator ''share'' (ui (snd (shareContract env result c)))"
  using assms
  by (auto simp add: shareContract_def copyToClipboard_config copiedIndicator_def comp_defs
      clipboard_writes_append)

theorem shareContract_fallback_witness:
  "navigator_share bare_env = None \<and>
   clipboard_writes (trace (snd (shareContract bare_env example_result initial_config))) =
     [''https://etherscan.io/address/0x5FbDB231''] \<and>
   copied (ui (snd (shareContract bare_env example_result initial_config))) = Some ''share'' \<and>
   (\<exists>share. navigator_share wallet_env = Some share \<and>
      share (shareData example_result) = Rejected (JsError ''AbortError'')) \<and>
   clipboard_writes (trace (snd (shareContract wallet_env example_result initial_config))) =
     [''https://etherscan.io/address/0x5FbDB231''] \<and>
   copied (ui (snd (shareContract wallet_env example_result initial_config))) = Some ''share''"
  using shareContract_fallback [of bare_env example_result initial_config]
    shareContract_fallback [of wallet_env example_result initial_config]
  by (simp add: example_defs copiedIndicator_def)

subsection \<open>The metadata fetch\<close>

text \<open>
  C6. When the contract address is set and the metadata fetch resolves to a record, the
  effect completes normally with that record stored, the form hidden and the loading flag
  cleared, whatever the state before: the panel shows the read view of the fetched record.
\<close>

theorem checkMetadata_record_shows_read_view:
  assumes "contractAddress result \<noteq> []"
    and "getTokenMetadata env (contractAddress result) = Resolved (Some metadata)"
  shows "fst (checkMetadata env result c) = Normal () \<and>
         ui (snd (checkMetadata env result c)) =
           (ui c)\<lparr>tokenMetadata := Some metadata, showMetadataForm := False,
                  isLoadingMetadata := False\<rparr> \<and>
         metadataPanel (ui (snd (checkMetadata env result c))) = MetadataView metadata"
  using assms by (simp add: checkMetadata_def comp_defs metadataPanel_def)

theorem checkMetadata_record_shows_read_view_witness:
  "contractAddress example_result \<noteq> [] \<and>
   getTokenMetadata wallet_env (contractAddress example_result) = Resolved (Some example_metadata) \<and>
   metadataPanel (ui (snd (checkMetadata wallet_env example_result initial_config))) =
     MetadataView example_metadata \<and>
   \<not> showMetadataForm (ui (snd (checkMetadata wallet_env example_result initial_config)))"
proof -
  have address: "contractAddress example_result \<noteq> []"
    by (simp add: example_result_def)
  have fetch: "getTokenMetadata wallet_env (contractAddress example_result) =
      Resolved (Some example_metadata)"
    by (simp add: wallet_env_def)
  note r = checkMetadata_record_shows_read_view [OF address fetch, of initial_config]
  have "metadataPanel (ui (snd (checkMetadata wallet_env example_result initial_config))) =
      MetadataView example_metadata"
    using r by blast
  moreover have "\<not> showMetadataForm (ui (snd (checkMetadata wallet_env example_result initial_config)))"
    using r by simp
  ultimately show ?thesis using address fetch by blast
qed

text \<open>
  C8. When the metadata fetch fails on mount, the error is logged, the loading flag is set
  and cleared again, nothing else of the state changes (no metadata, form hidden: the panel
  shows the prompt), and the effect completes normally.
\<close>

theorem checkMetadata_failure_falls_back:
  assumes "contractAddress result \<noteq> []"
    and "getTokenMetadata env (contractAddress result) = Rejected e"
  shows "fst (checkMetadata env result initial_config) = Normal () \<and>
         trace (snd (checkMetadata env result initial_config)) =
           [GetTokenMetadata (contractAddress result),
            ConsoleError ''Error fetching token metadata:'' e] \<and>
         ui (snd (checkMetadata env result initial_config)) = initialState \<and>
         tokenMetadata (ui (snd (checkMetadata env result initial_config))) = None \<and>
         \<not> showMetadataForm (ui (snd (checkMetadata env result initial_config))) \<and>
         \<not> isLoadingMetadata (ui (snd (checkMetadata env result initial_config))) \<and>
         metadataPanel (ui (snd (checkMetadata env result initial_config))) = AddMetadataPrompt"
  using assms
  by (simp add: checkMetadata_def comp_defs metadataPanel_def initial_config_def initialState_def)

theorem checkMetadata_failure_falls_back_witness:
  "contractAddress example_result \<noteq> [] \<and>
   getTokenMetadata offline_env (contractAddress example_result) =
     Rejected (JsError ''Network Error'') \<and>
   fst (checkMetadata offline_env example_result initial_config) = Normal () \<and>
   trace (snd (checkMetadata offline_env example_result initial_config)) =
     [GetTokenMetadata ''0x5FbDB231'',
      ConsoleError ''Error fetching token metadata:'' (JsError ''Network Error'')] \<and>
   metadataPanel (ui (snd (checkMetadata offline_env example_result initial_config))) =
     AddMetadataPrompt"
proof -
  have address: "contractAddress example_result \<noteq> []"
    by (simp add: example_result_def)
  have fetch: "getTokenMetadata offline_env (contractAddress example_result) =
      Rejected (JsError ''Network Error'')"
    by (simp add: offline_env_def)
  have contract: "contractAddress example_result = ''0x5FbDB231''"
    by (simp add: example_result_def)
  note r = checkMetadata_failure_falls_back [OF address fetch]
  have "fst (checkMetadata offline_env example_result initial_config) = Normal ()"
    using r by blast
  moreover have "trace (snd (checkMetadata offline_env example_result initial_config)) =
      [GetTokenMetadata ''0x5FbDB231'',
       ConsoleError ''Error fetching token metadata:'' (JsError ''Network Error'')]"
    using r unfolding contract by blast
  moreover have "metadataPanel (ui (snd (checkMetadata offline_env example_result initial_config))) =
      AddMetadataPrompt"
    using r by blast
  ultimately show ?thesis using address fetch by blast
qed

text \<open>
  C10. When the contract address of the result is empty, the effect does nothing at all: no
  fetch is issued and no setter is called, so the loading flag is never set, and after
  mount the panel shows the prompt.
\<close>

theorem checkMetadata_empty_address_skips_fetch:
  assumes "contractAddress result = []"
  shows "checkMetadata env result c = (Normal (), c) \<and>
         trace (snd (checkMetadata env result initial_config)) = [] \<and>
         updates (snd (checkMetadata env result initial_config)) = [] \<and>
         \<not> isLoadingMetadata (ui (snd (checkMetadata env result initial_config))) \<and>
         metadataPanel (ui (snd (checkMetadata env result initial_config))) = AddMetadataPrompt"
  using assms
  by (simp add: checkMetadata_def comp_defs metadataPanel_def initial_config_def initialState_def)

theorem checkMetadata_empty_address_skips_fetch_witness:
  "contractAddress (example_result\<lparr>contractAddress := []\<rparr>) = [] \<and>
   checkMetadata wallet_env (example_result\<lparr>contractAddress := []\<rparr>) initial_config =
     (Normal (), initial_config) \<and>
   metadataPanel
     (ui (snd (checkMetadata wallet_env (example_result\<lparr>contractAddress := []\<rparr>) initial_config))) =
     AddMetadataPrompt"
proof -
  have address: "contractAddress (example_result\<lparr>contractAddress := []\<rparr>) = []"
    by simp
  from checkMetadata_empty_address_skips_fetch [OF address, of wallet_env initial_config]
  show ?thesis using address by blast
qed

subsection \<open>Saving metadata\<close>

text \<open>
  C9. When the form is showing and it calls the save callback with a record, the stored
  metadata becomes that record and the form is hidden, so the panel shows the read view of
  the record; the copied flag and the loading flag do not change, nothing is logged and no
  timer is registered.
\<close>

theorem handleMetadataSave_editing_to_present:
  assumes "metadataPanel (ui c) = MetadataForm previous"
  shows "dispatch env result (Save metadata) c = snd (handleMetadataSave metadata c) \<and>
         fst (handleMetadataSave metadata c) = Normal () \<and>
         ui (snd (handleMetadataSave metadata c)) =
           (ui c)\<lparr>tokenMetadata := Some metadata, showMetadataForm := False\<rparr> \<and>
         copied (ui (snd (handleMetadataSave metadata c))) = copied (ui c) \<and>
         isLoadingMetadata (ui (snd (handleMetadataSave metadata c))) = isLoadingMetadata (ui c) \<and>
         trace (snd (handleMetadataSave metadata c)) = trace c \<and>
         timers (snd (handleMetadataSave metadata c)) = timers c \<and>
         metadataPanel (ui (snd (handleMetadataSave metadata c))) = MetadataView metadata"
  using assms
  by (auto simp add: handleMetadataSave_def comp_defs metadataPanel_def
      split: if_splits option.splits)

theorem handleMetadataSave_editing_to_present_witness:
  "metadataPanel (ui (dispatch bare_env example_result AddTokenMetadata initial_config)) =
     MetadataForm None \<and>
   metadataPanel
     (ui (dispatch bare_env example_result (Save example_metadata)
            (dispatch bare_env example_result AddTokenMetadata initial_config))) =
     MetadataView example_metadata"
proof -
  let ?editing = "dispatch bare_env example_result AddTokenMetadata initial_config"
  have form: "metadataPanel (ui ?editing) = MetadataForm None"
    by (simp add: metadataPanel_def comp_defs initial_config_def initialState_def)
  note r = handleMetadataSave_editing_to_present
    [OF form, of bare_env example_result example_metadata]
  have "dispatch bare_env example_result (Save example_metadata) ?editing =
      snd (handleMetadataSave example_metadata ?editing)"
    using r by blast
  moreover have "metadataPanel (ui (snd (handleMetadataSave example_metadata ?editing))) =
      MetadataView example_metadata"
    using r by blast
  ultimately show ?thesis using form by simp
qed

subsection \<open>Timers and sequences of actions\<close>

lemma fire_timer_simps:
  "now (fire_timer c) = now c"
  "timers (fire_timer c) = timers c"
  "ui (fire_timer c) = (ui c)\<lparr>copied := None\<rparr>"
  by (simp_all add: fire_timer_def comp_defs)

lemma fold_fire_timer_ui:
  "ui (fold (\<lambda>_. fire_timer) dues c) =
     (if dues = [] then ui c else (ui c)\<lparr>copied := None\<rparr>)"
  by (induction dues arbitrary: c) (simp_all add: fire_timer_simps)

lemma elapse_now: "now (elapse d c) = now c + d"
  by (simp add: elapse_def Let_def)

lemma elapse_timers: "timers (elapse d c) = filter (\<lambda>due. now c + d < due) (timers c)"
  by (simp add: elapse_def Let_def)

lemma elapse_ui:
  "ui (elapse d c) =
     (if filter (\<lambda>due. due \<le> now c + d) (timers c) = [] then ui c
      else (ui c)\<lparr>copied := None\<rparr>)"
  by (simp add: elapse_def Let_def fold_fire_timer_ui)

lemma duration_Cons: "duration (a # as) = duration [a] + duration as"
  by (cases a) simp_all

lemma dispatch_now: "now (dispatch env result a c) = now c + duration [a]"
  by (cases a)
     (auto simp add: copyToClipboard_config shareContract_def addTokenToMetaMask_def
        handleMetadataSave_def comp_defs elapse_now
        split: option.splits promise.splits MetadataPanel.splits)

text \<open>No handler cancels a timer: a pending callback stays pending until it is due.\<close>

lemma dispatch_timers:
  assumes "due \<in> set (timers c)" and "now c + duration [a] < due"
  shows "due \<in> set (timers (dispatch env result a c))"
  using assms
  by (cases a)
     (auto simp add: copyToClipboard_config shareContract_def addTokenToMetaMask_def
        handleMetadataSave_def comp_defs elapse_timers
        split: option.splits promise.splits MetadataPanel.splits)

lemma run_actions_Cons:
  "run_actions env result (a # as) c = run_actions env result as (dispatch env result a c)"
  by (simp add: run_actions_def)

lemma run_actions_append:
  "run_actions env result (as @ bs) c = run_actions env result bs (run_actions env result as c)"
  by (simp add: run_actions_def)

lemma run_actions_now: "now (run_actions env result as c) = now c + duration as"
proof (induction as arbitrary: c)
  case Nil
  show ?case by (simp add: run_actions_def)
next
  case (Cons a as)
  have "now (run_actions env result (a # as) c) = now c + duration [a] + duration as"
    by (simp add: run_actions_Cons Cons.IH dispatch_now)
  then show ?case using duration_Cons [of a as] by simp
qed

lemma run_actions_timers:
  assumes "due \<in> set (timers c)" and "now c + duration as < due"
  shows "due \<in> set (timers (run_actions env result as c))"
  using assms
proof (induction as arbitrary: c)
  case Nil
  then show ?case by (simp add: run_actions_def)
next
  case (Cons a as)
  let ?c = "dispatch env result a c"
  have split: "duration (a # as) = duration [a] + duration as"
    by (rule duration_Cons)
  have "due \<in> set (timers ?c)"
    using Cons.prems split by (intro dispatch_timers) simp_all
  moreover have "now ?c + duration as < due"
    using Cons.prems split by (simp add: dispatch_now)
  ultimately have "due \<in> set (timers (run_actions env result as ?c))"
    by (rule Cons.IH)
  then show ?case by (simp add: run_actions_Cons)
qed

text \<open>
  A flag stays as long as no copy replaces it and no pending timer becomes due: the other
  handlers do not touch it.
\<close>

lemma dispatch_keeps_flag:
  assumes "copied (ui c) = Some key"
    and "a \<noteq> CopyAddress" and "a \<noteq> CopyTx" and "a \<noteq> ShareContract"
    and "\<forall>due\<in>set (timers c). now c + duration [a] < due"
  shows "copied (ui (dispatch env result a c)) = Some key \<and>
         set (timers (dispatch env result a c)) \<subseteq> set (timers c)"
  using assms
  by (cases a)
     (auto simp add: addTokenToMetaMask_def handleMetadataSave_def comp_defs elapse_ui
        elapse_timers filter_empty_conv
        split: option.splits promise.splits MetadataPanel.splits)

lemma run_actions_keeps_flag:
  assumes "copied (ui c) = Some key"
    and "CopyAddress \<notin> set as" and "CopyTx \<notin> set as" and "ShareContract \<notin> set as"
    and "\<forall>due\<in>set (timers c). now c + duration as < due"
  shows "copied (ui (run_actions env result as c)) = Some key"
  using assms
proof (induction as arbitrary: c)
  case Nil
  then show ?case by (simp add: run_actions_def)
next
  case (Cons a as)
  let ?c = "dispatch env result a c"
  have split: "duration (a # as) = duration [a] + duration as"
    by (rule duration_Cons)
  have step: "copied (ui ?c) = Some key \<and> set (timers ?c) \<subseteq> set (timers c)"
    using Cons.prems split by (intro dispatch_keeps_flag) auto
  have "\<forall>due\<in>set (timers ?c). now ?c + duration as < due"
  proof
    fix due
    assume "due \<in> set (timers ?c)"
    with step have "due \<in> set (timers c)" by blast
    with Cons.prems(5) have "now c + duration (a # as) < due" by blast
    then show "now ?c + duration as < due"
      using split by (simp add: dispatch_now)
  qed
  then have "copied (ui (run_actions env result as ?c)) = Some key"
    using step Cons.prems by (intro Cons.IH) auto
  then show ?case by (simp add: run_actions_Cons)
qed

text \<open>When a pending timer becomes due, whatever happened before, no flag is active.\<close>

lemma run_actions_fires:
  assumes "due \<in> set (timers c)" and "now c + duration as + d = due" and "0 < d"
  shows "copied (ui (run_actions env result (as @ [Elapse d]) c)) = None"
proof -
  let ?c = "run_actions env result as c"
  have now: "now ?c = now c + duration as"
    by (rule run_actions_now)
  have "now c + duration as < due"
    using assms by simp
  with assms(1) have "due \<in> set (timers ?c)"
    by (rule run_actions_timers)
  moreover have "due \<le> now ?c + d"
    using assms now by simp
  ultimately have "filter (\<lambda>t. t \<le> now ?c + d) (timers ?c) \<noteq> []"
    by (auto simp add: filter_empty_conv)
  then have "copied (ui (elapse d ?c)) = None"
    by (simp add: elapse_ui)
  then show ?thesis
    by (simp add: run_actions_append run_actions_def)
qed

text \<open>
  C2, as the code has it. Copying a field sets the confirmation flag of that field and
  registers one more timer, due exactly 2000ms after the copy, next to the timers already
  pending; two flags are never active together. Through every sequence of actions \<open>bs\<close>
  that takes less than 2000ms, contains no further copy and ends before any earlier timer
  is due, the flag stays active: the flag of a copy with no earlier timer pending lasts the
  full 2000ms. When an earlier timer is still pending and becomes due (after \<open>es\<close> and
  \<open>e\<close> more ms), no flag is active then, also when that is less than 2000ms after the
  copy. And 2000ms after the copy (after \<open>as\<close> and \<open>d\<close> more ms), whatever the user did
  in between, the timer of the copy has run and no flag is active.
\<close>

theorem copied_flag_lifecycle:
  assumes "CopyAddress \<notin> set bs" and "CopyTx \<notin> set bs" and "ShareContract \<notin> set bs"
    and "\<forall>due\<in>set (timers c). now c + duration bs < due"
    and "duration bs < 2000"
    and "duration as + d = 2000" and "0 < d"
  shows "copiedIndicator key (ui (snd (copyToClipboard txt key c))) \<and>
         now (snd (copyToClipboard txt key c)) = now c \<and>
         timers (snd (copyToClipboard txt key c)) = timers c @ [now c + 2000] \<and>
         (copiedIndicator k1 s \<and> copiedIndicator k2 s \<longrightarrow> k1 = k2) \<and>
         copiedIndicator key
           (ui (run_actions env result bs (snd (copyToClipboard txt key c)))) \<and>
         (earlier \<in> set (timers c) \<and> now c + duration es + e = earlier \<and> 0 < e \<longrightarrow>
          copied (ui (run_actions env result (es @ [Elapse e])
                        (snd (copyToClipboard txt key c)))) = None) \<and>
         copied (ui (run_actions env result (as @ [Elapse d])
                       (snd (copyToClipboard txt key c)))) = None"
proof -
  let ?c1 = "snd (copyToClipboard txt key c)"
  have flag: "copied (ui ?c1) = Some key" and now1: "now ?c1 = now c"
    and timers1: "timers ?c1 = timers c @ [now c + 2000]"
    by (simp_all add: copyToClipboard_config)
  have "\<forall>due\<in>set (timers ?c1). now ?c1 + duration bs < due"
    using assms(4,5) by (simp add: timers1 now1)
  with flag assms(1-3) have "copied (ui (run_actions env result bs ?c1)) = Some key"
    by (intro run_actions_keeps_flag)
  then have persists: "copiedIndicator key (ui (run_actions env result bs ?c1))"
    by (simp add: copiedIndicator_def)
  have early: "copied (ui (run_actions env result (es @ [Elapse e]) ?c1)) = None"
    if "earlier \<in> set (timers c)" and "now c + duration es + e = earlier" and "0 < e"
  proof -
    have "earlier \<in> set (timers ?c1)" and "now ?c1 + duration es + e = earlier"
      using that by (simp_all add: timers1 now1)
    then show ?thesis
      using that(3) by (rule run_actions_fires)
  qed
  have "now c + 2000 \<in> set (timers ?c1)" and "now ?c1 + duration as + d = now c + 2000"
    using assms(6) by (simp_all add: timers1 now1)
  then have own: "copied (ui (run_actions env result (as @ [Elapse d]) ?c1)) = None"
    using assms(7) by (rule run_actions_fires)
  have unique: "copiedIndicator k1 s \<and> copiedIndicator k2 s \<longrightarrow> k1 = k2"
    by (auto simp add: copiedIndicator_def)
  have flag_set: "copiedIndicator key (ui ?c1)"
    using flag by (simp add: copiedIndicator_def)
  show ?thesis
    using flag_set now1 timers1 unique persists early own by blast
qed

text \<open>
  Two instances. The transaction hash is copied 1500ms after the address: its flag is
  active 499ms later, gone 500ms later when the timer of the address copy is due, and no
  flag is active 2000ms after the copy. The address is copied with no timer pending: its
  flag is active 1999ms later and gone at 2000ms.
\<close>

theorem copied_flag_lifecycle_witness:
  "timers (run_actions bare_env example_result [CopyAddress, Elapse 1500] initial_config) =
     [2000] \<and>
   now (run_actions bare_env example_result [CopyAddress, Elapse 1500] initial_config) = 1500 \<and>
   timers (snd (copyToClipboard ''0x9f86d081884c7d659a2feaa0'' ''tx''
           (run_actions bare_env example_result [CopyAddress, Elapse 1500] initial_config))) =
     [2000, 3500] \<and>
   copiedIndicator ''tx''
     (ui (run_actions bare_env example_result [Elapse 499]
            (snd (copyToClipboard ''0x9f86d081884c7d659a2feaa0'' ''tx''
               (run_actions bare_env example_result [CopyAddress, Elapse 1500] initial_config))))) \<and>
   copied
     (ui (run_actions bare_env example_result ([] @ [Elapse 500])
            (snd (copyToClipboard ''0x9f86d081884c7d659a2feaa0'' ''tx''
               (run_actions bare_env example_result [CopyAddress, Elapse 1500] initial_config))))) =
     None \<and>
   copied
     (ui (run_actions bare_env example_result ([Elapse 1500, AddToMetaMask] @ [Elapse 500])
            (snd (copyToClipboard ''0x9f86d081884c7d659a2feaa0'' ''tx''
               (run_actions bare_env example_result [CopyAddress, Elapse 1500] initial_config))))) =
     None \<and>
   copiedIndicator ''address''
     (ui (run_actions bare_env example_result [AddToMetaMask, Elapse 1999]
            (snd (copyToClipboard ''0x5FbDB231'' ''address'' initial_config)))) \<and>
   copied
     (ui (run_actions bare_env example_result ([Elapse 1999] @ [Elapse 1])
            (snd (copyToClipboard ''0x5FbDB231'' ''address'' initial_config)))) = None"
proof -
  let ?c = "run_actions bare_env example_result [CopyAddress, Elapse 1500] initial_config"
  have pending: "timers ?c = [2000]" and clock: "now ?c = 1500"
    by (simp_all add: run_actions_def copyToClipboard_config elapse_def initial_config_def)
  have no_copy: "CopyAddress \<notin> set [Elapse 499]" "CopyTx \<notin> set [Elapse 499]"
    "ShareContract \<notin> set [Elapse 499]"
    by simp_all
  have not_due: "\<forall>due\<in>set (timers ?c). now ?c + duration [Elapse 499] < due"
    by (simp add: pending clock)
  have short: "duration [Elapse 499] < 2000"
    by simp
  have total: "duration [Elapse 1500, AddToMetaMask] + 500 = 2000"
    by simp
  have positive: "(0::nat) < 500"
    by simp
  have earlier: "2000 \<in> set (timers ?c) \<and> now ?c + duration [] + 500 = 2000 \<and> (0::nat) < 500"
    by (simp add: pending clock)
  note overlap = copied_flag_lifecycle
    [OF no_copy not_due short total positive,
      of "''tx''" "''0x9f86d081884c7d659a2feaa0''" _ _ _ bare_env example_result 2000 "[]" 500]
  have no_copy': "CopyAddress \<notin> set [AddToMetaMask, Elapse 1999]"
    "CopyTx \<notin> set [AddToMetaMask, Elapse 1999]"
    "ShareContract \<notin> set [AddToMetaMask, Elapse 1999]"
    by simp_all
  have not_due': "\<forall>due\<in>set (timers initial_config).
      now initial_config + duration [AddToMetaMask, Elapse 1999] < due"
    by (simp add: initial_config_def)
  have short': "duration [AddToMetaMask, Elapse 1999] < 2000"
    by simp
  have total': "duration [Elapse 1999] + 1 = 2000"
    by simp
  have positive': "(0::nat) < 1"
    by simp
  note isolated = copied_flag_lifecycle
    [OF no_copy' not_due' short' total' positive',
      of "''address''" "''0x5FbDB231''" _ _ _ bare_env example_result]
  have "timers (snd (copyToClipboard ''0x9f86d081884c7d659a2feaa0'' ''tx'' ?c)) = [2000, 3500]"
    using overlap by (simp add: pending clock)
  moreover have "copiedIndicator ''tx''
      (ui (run_actions bare_env example_result [Elapse 499]
             (snd (copyToClipboard ''0x9f86d081884c7d659a2feaa0'' ''tx'' ?c))))"
    using overlap by blast
  moreover have "copied
      (ui (run_actions bare_env example_result ([] @ [Elapse 500])
             (snd (copyToClipboard ''0x9f86d081884c7d659a2feaa0'' ''tx'' ?c)))) = None"
    using overlap earlier by blast
  moreover have "copied
      (ui (run_actions bare_env example_result ([Elapse 1500, AddToMetaMask] @ [Elapse 500])
             (snd (copyToClipboard ''0x9f86d081884c7d659a2feaa0'' ''tx'' ?c)))) = None"
    using overlap by blast
  moreover have "copiedIndicator ''address''
      (ui (run_actions bare_env example_result [AddToMetaMask, Elapse 1999]
             (snd (copyToClipboard ''0x5FbDB231'' ''address'' initial_config))))"
    using isolated by blast
  moreover have "copied
      (ui (run_actions bare_env example_result ([Elapse 1999] @ [Elapse 1])
             (snd (copyToClipboard ''0x5FbDB231'' ''address'' initial_config)))) = None"
    using isolated by blast
  ultimately show ?thesis
    using pending clock by blast
qed

text \<open>
  C2 as stated fails on overlapping copies, since no pending timer is ever cancelled. The
  flag of the transaction hash, set 1500ms after the address was copied, is still
  active 499ms later and is gone 500ms later: it is cleared by the timer of the earlier
  copy, not 2000ms after the copy that set it.
\<close>

theorem copied_flag_cleared_by_earlier_timer:
  "copiedIndicator ''tx''
     (ui (run_actions bare_env example_result
            [CopyAddress, Elapse 1500, CopyTx, Elapse 499] initial_config)) \<and>
   \<not> copiedIndicator ''tx''
     (ui (run_actions bare_env example_result
            [CopyAddress, Elapse 1500, CopyTx, Elapse 500] initial_config))"
  by (simp add: run_actions_def copyToClipboard_config elapse_def fire_timer_def comp_defs
      copiedIndicator_def initial_config_def initialState_def)

subsection \<open>The prompt after a fetch without record\<close>

lemma dispatch_prompt:
  assumes "prompt_state (ui c)" and "a \<noteq> ToggleForm" and "a \<noteq> AddTokenMetadata"
  shows "prompt_state (ui (dispatch env result a c))"
  using assms
  by (cases a)
     (auto simp add: prompt_state_def metadataPanel_def copyToClipboard_config
        shareContract_def addTokenToMetaMask_def handleMetadataSave_def comp_defs elapse_ui
        split: option.splits promise.splits MetadataPanel.splits)

lemma run_actions_prompt:
  assumes "prompt_state (ui c)" and "ToggleForm \<notin> set as" and "AddTokenMetadata \<notin> set as"
  shows "prompt_state (ui (run_actions env result as c))"
  using assms
proof (induction as arbitrary: c)
  case Nil
  then show ?case by (simp add: run_actions_def)
next
  case (Cons a as)
  have "prompt_state (ui (dispatch env result a c))"
    using Cons.prems by (intro dispatch_prompt) auto
  then have "prompt_state (ui (run_actions env result as (dispatch env result a c)))"
    using Cons.prems by (intro Cons.IH) auto
  then show ?case by (simp add: run_actions_Cons)
qed

text \<open>
  C7. When the contract address is set and the metadata fetch on mount resolves to no
  record, the effect completes normally and leaves no metadata and the form hidden: the
  panel shows the prompt, and keeps showing it through every sequence of actions in which
  the user opens the form neither by the header toggle nor by the button of the prompt.
  Either of the two then opens the empty form.
\<close>

theorem checkMetadata_no_record_shows_prompt:
  assumes "contractAddress result \<noteq> []"
    and "getTokenMetadata env (contractAddress result) = Resolved None"
    and "ToggleForm \<notin> set as" and "AddTokenMetadata \<notin> set as"
  shows "fst (checkMetadata env result initial_config) = Normal () \<and>
         ui (snd (checkMetadata env result initial_config)) = initialState \<and>
         metadataPanel (ui (snd (checkMetadata env result initial_config))) = AddMetadataPrompt \<and>
         metadataPanel
           (ui (run_actions env result as (snd (checkMetadata env result initial_config)))) =
           AddMetadataPrompt \<and>
         metadataPanel
           (ui (dispatch env result AddTokenMetadata
                  (run_actions env result as (snd (checkMetadata env result initial_config))))) =
           MetadataForm None \<and>
         metadataPanel
           (ui (dispatch env result ToggleForm
                  (run_actions env result as (snd (checkMetadata env result initial_config))))) =
           MetadataForm None"
proof -
  let ?c = "snd (checkMetadata env result initial_config)"
  let ?c' = "run_actions env result as ?c"
  have normal: "fst (checkMetadata env result initial_config) = Normal ()"
    and state: "ui ?c = initialState"
    using assms(1,2)
    by (simp_all add: checkMetadata_def comp_defs initial_config_def initialState_def)
  have start: "prompt_state (ui ?c)"
    by (simp add: state prompt_state_def initialState_def)
  then have later: "prompt_state (ui ?c')"
    using assms(3,4) by (rule run_actions_prompt)
  from start have "metadataPanel (ui ?c) = AddMetadataPrompt"
    by (simp add: prompt_state_def metadataPanel_def)
  moreover from later have "metadataPanel (ui ?c') = AddMetadataPrompt"
    by (simp add: prompt_state_def metadataPanel_def)
  moreover from later
  have "metadataPanel (ui (dispatch env result AddTokenMetadata ?c')) = MetadataForm None"
    by (simp add: prompt_state_def metadataPanel_def comp_defs)
  moreover from later
  have "metadataPanel (ui (dispatch env result ToggleForm ?c')) = MetadataForm None"
    by (simp add: prompt_state_def metadataPanel_def comp_defs)
  ultimately show ?thesis using normal state by blast
qed

theorem checkMetadata_no_record_shows_prompt_witness:
  "contractAddress example_result \<noteq> [] \<and>
   getTokenMetadata bare_env (contractAddress example_result) = Resolved None \<and>
   ToggleForm \<notin> set [CopyAddress, Elapse 2000, ShareContract, AddToMetaMask] \<and>
   AddTokenMetadata \<notin> set [CopyAddress, Elapse 2000, ShareContract, AddToMetaMask] \<and>
   metadataPanel
     (ui (run_actions bare_env example_result [CopyAddress, Elapse 2000, ShareContract, AddToMetaMask]
            (snd (checkMetadata bare_env example_result initial_config)))) = AddMetadataPrompt \<and>
   metadataPanel
     (ui (dispatch bare_env example_result AddTokenMetadata
            (run_actions bare_env example_result [CopyAddress, Elapse 2000, ShareContract, AddToMetaMask]
               (snd (checkMetadata bare_env example_result initial_config))))) = MetadataForm None"
proof -
  have address: "contractAddress example_result \<noteq> []"
    by (simp add: example_result_def)
  have fetch: "getTokenMetadata bare_env (contractAddress example_result) = Resolved None"
    by (simp add: bare_env_def)
  have no_toggle: "ToggleForm \<notin> set [CopyAddress, Elapse 2000, ShareContract, AddToMetaMask]"
    by simp
  have no_button: "AddTokenMetadata \<notin> set [CopyAddress, Elapse 2000, ShareContract, AddToMetaMask]"
    by simp
  from checkMetadata_no_record_shows_prompt [OF address fetch no_toggle no_button]
  show ?thesis using address fetch no_toggle no_button by blast
qed

end
